theory Spec2Isabelle
  imports Complex_Main
begin

section \<open>Python primitives used by the numbering code\<close>

text \<open>
  The identifier generators parse the tail of the previous number with \<^verbatim>\<open>int(s[k:])\<close> and
  print the successor with \<^verbatim>\<open>str(n).zfill(6)\<close>. Strings are byte lists here, so the model of
  \<^verbatim>\<open>int\<close> covers ASCII input: surrounding whitespace is stripped, one sign is allowed, and
  digits may be separated by single underscores. Anything else raises ValueError (None).
\<close>

definition isspace :: "char \<Rightarrow> bool" where
  "isspace c = (List.member [9, 10, 11, 12, 13, 28, 29, 30, 31, 32 :: nat] (of_char c))"

definition isdigit :: "char \<Rightarrow> bool" where
  "isdigit c = (48 \<le> (of_char c :: nat) \<and> (of_char c :: nat) \<le> 57)"

definition digit_val :: "char \<Rightarrow> int" where
  "digit_val c = int (of_char c) - 48"

definition strip :: "string \<Rightarrow> string" where
  "strip s = rev (dropWhile isspace (rev (dropWhile isspace s)))"

fun py_digits :: "int \<Rightarrow> bool \<Rightarrow> string \<Rightarrow> int option" where
  "py_digits acc prev [] = (if prev then Some acc else None)"
| "py_digits acc prev (c # cs) =
     (if isdigit c then py_digits (10 * acc + digit_val c) True cs
      else if c = CHR ''_'' \<and> prev then py_digits acc False cs
      else None)"

definition py_int :: "string \<Rightarrow> int option" where
  "py_int s =
     (case strip s of
        [] \<Rightarrow> None
      | c # cs \<Rightarrow>
          if c = CHR ''-'' then map_option uminus (py_digits 0 False cs)
          else if c = CHR ''+'' then py_digits 0 False cs
          else py_digits 0 False (c # cs))"

definition digit_char :: "nat \<Rightarrow> char" where
  "digit_char d = char_of (48 + d)"

function str_nat :: "nat \<Rightarrow> string" where
  "str_nat n = (if n < 10 then [digit_char n] else str_nat (n div 10) @ [digit_char (n mod 10)])"
  by pat_completeness auto
termination
  by (relation "measure id") auto

declare str_nat.simps [simp del]

definition str_int :: "int \<Rightarrow> string" where
  "str_int n = (if n < 0 then CHR ''-'' # str_nat (nat (- n)) else str_nat (nat n))"

text \<open>\<^verbatim>\<open>str.zfill(width)\<close>: zeros go after a leading sign; a string already wide enough is kept.\<close>

definition zfill :: "nat \<Rightarrow> string \<Rightarrow> string" where
  "zfill width s =
     (if width \<le> length s then s
      else case s of
        [] \<Rightarrow> replicate width (CHR ''0'')
      | c # cs \<Rightarrow>
          if c = CHR ''+'' \<or> c = CHR ''-''
          then c # replicate (width - length s) (CHR ''0'') @ cs
          else replicate (width - length s) (CHR ''0'') @ s)"

text \<open>\<^verbatim>\<open>queryset.order_by('-id').first()\<close>: the row with the greatest primary key.\<close>

fun latest :: "('a \<Rightarrow> nat) \<Rightarrow> 'a list \<Rightarrow> 'a option" where
  "latest pk [] = None"
| "latest pk (x # xs) =
     (case latest pk xs of
        None \<Rightarrow> Some x
      | Some y \<Rightarrow> if pk x < pk y then Some y else Some x)"

datatype error = ValueError | IntegrityError | ProtectedError | InvalidOperation

section \<open>The data model (orders, billing, products, commercial)\<close>

datatype Order_Status =
  Order_PENDING | Order_CONFIRMED | Order_IN_PRODUCTION | Order_READY_FOR_DELIVERY
  | Order_IN_TRANSIT | Order_DELIVERED | Order_CANCELLED

datatype Invoice_Status =
  Invoice_DRAFT | Invoice_PENDING | Invoice_PAID | Invoice_PARTIALLY_PAID
  | Invoice_OVERDUE | Invoice_CANCELLED

datatype PaymentMethod = BANK_TRANSFER | CREDIT_CARD | CHECK | CASH

text \<open>
  Primary keys and foreign keys are naturals, \<^verbatim>\<open>Decimal\<close> amounts are rationals (the
  arithmetic of the source is exact on them), dates are day numbers. The automatic
  timestamps \<^verbatim>\<open>created_at\<close> and \<^verbatim>\<open>updated_at\<close> are left out.
\<close>

record product =
  product_id :: nat
  product_name :: string
  price :: rat
  stock_quantity :: int

record order =
  order_id :: nat
  order_number :: string
  order_client :: nat
  order_status :: Order_Status
  order_total_amount :: rat
  shipping_address :: string
  delivery_notes :: string
  delivery_date :: "int option"

record order_item =
  item_id :: nat
  item_order :: nat
  item_product :: nat
  quantity :: int
  unit_price :: rat
  total_price :: rat

record delivery_status =
  ds_id :: nat
  ds_order :: nat
  ds_status :: Order_Status
  ds_location :: string
  ds_notes :: string
  ds_updated_by :: nat

record invoice =
  invoice_id :: nat
  invoice_number :: string
  invoice_order :: nat
  invoice_client :: nat
  invoice_status :: Invoice_Status
  issue_date :: int
  due_date :: int
  subtotal :: rat
  tax_rate :: rat
  tax_amount :: rat
  invoice_total_amount :: rat
  invoice_notes :: string

record payment =
  payment_id :: nat
  payment_invoice :: nat
  payment_amount :: rat
  payment_method :: PaymentMethod
  payment_date :: int
  payment_created_by :: nat

record credit_note =
  cn_id :: nat
  credit_note_number :: string
  cn_invoice :: nat
  cn_amount :: rat
  reason :: string
  cn_issue_date :: int
  cn_created_by :: nat

record quote =
  quote_id :: nat
  quote_number :: string
  quote_customer :: nat
  quote_subtotal :: rat
  quote_discount :: rat
  quote_tax :: rat
  quote_total :: rat

text \<open>
  The database: one list of rows per table with the counter of its primary-key sequence,
  and the current date that \<^verbatim>\<open>timezone.now().date()\<close> reads.
\<close>

record db =
  today :: int
  products :: "product list"
  orders :: "order list"
  order_seq :: nat
  order_items :: "order_item list"
  order_item_seq :: nat
  delivery_updates :: "delivery_status list"
  delivery_seq :: nat
  invoices :: "invoice list"
  invoice_seq :: nat
  payments :: "payment list"
  payment_seq :: nat
  credit_notes :: "credit_note list"
  credit_note_seq :: nat
  quotes :: "quote list"
  quote_seq :: nat

section \<open>Sequential identifiers\<close>

text \<open>\<^verbatim>\<open>OrderSerializer.create\<close>, the number it assigns.\<close>

definition order_new_number :: "order list \<Rightarrow> error + string" where
  "order_new_number os =
     (case latest order_id os of
        None \<Rightarrow> Inr ''ORD000001''
      | Some last_order \<Rightarrow>
          (case py_int (drop 3 (order_number last_order)) of
             None \<Rightarrow> Inl ValueError
           | Some last_number \<Rightarrow> Inr (''ORD'' @ zfill 6 (str_int (last_number + 1)))))"

text \<open>\<^verbatim>\<open>handle_order_status_change\<close> and \<^verbatim>\<open>InvoiceSerializer.create\<close> share this computation.\<close>

definition invoice_new_number :: "invoice list \<Rightarrow> error + string" where
  "invoice_new_number is =
     (case latest invoice_id is of
        None \<Rightarrow> Inr ''INV000001''
      | Some last_invoice \<Rightarrow>
          (case py_int (drop 3 (invoice_number last_invoice)) of
             None \<Rightarrow> Inl ValueError
           | Some last_number \<Rightarrow> Inr (''INV'' @ zfill 6 (str_int (last_number + 1)))))"

text \<open>\<^verbatim>\<open>CreditNoteSerializer.create\<close>, the number it assigns.\<close>

definition credit_note_new_number :: "credit_note list \<Rightarrow> error + string" where
  "credit_note_new_number cs =
     (case latest cn_id cs of
        None \<Rightarrow> Inr ''CN000001''
      | Some last_cn \<Rightarrow>
          (case py_int (drop 2 (credit_note_number last_cn)) of
             None \<Rightarrow> Inl ValueError
           | Some last_number \<Rightarrow> Inr (''CN'' @ zfill 6 (str_int (last_number + 1)))))"


section \<open>Model saves and the signal handlers\<close>

text \<open>
  \<^verbatim>\<open>Invoice.save\<close> fills in a zero tax amount and a zero total before the row is written.
\<close>

definition Invoice_save_fields :: "invoice \<Rightarrow> invoice" where
  "Invoice_save_fields i =
     (let i1 = (if tax_amount i = 0
                then i\<lparr>tax_amount := subtotal i * (tax_rate i / 100)\<rparr>
                else i)
      in if invoice_total_amount i1 = 0
         then i1\<lparr>invoice_total_amount := subtotal i1 + tax_amount i1\<rparr>
         else i1)"

text \<open>
  Writing a value to a column \<^verbatim>\<open>DecimalField(max_digits, decimal_places)\<close>: the value is
  quantized to \<open>decimal_places\<close> places, ties going to the even digit, under a context of
  precision \<open>max_digits\<close>; a result that needs more digits raises InvalidOperation.
\<close>

definition round_half_even :: "rat \<Rightarrow> int" where
  "round_half_even x =
     (let n = \<lfloor>x\<rfloor>; r = x - of_int n
      in if r < 1 / 2 then n
         else if 1 / 2 < r then n + 1
         else if even n then n else n + 1)"

definition fits :: "nat \<Rightarrow> nat \<Rightarrow> rat \<Rightarrow> bool" where
  "fits max_digits decimal_places x =
     (\<bar>round_half_even (x * 10 ^ decimal_places)\<bar> < 10 ^ max_digits)"

definition stored :: "nat \<Rightarrow> rat \<Rightarrow> rat" where
  "stored decimal_places x =
     of_int (round_half_even (x * 10 ^ decimal_places)) / 10 ^ decimal_places"

definition quantize :: "nat \<Rightarrow> nat \<Rightarrow> rat \<Rightarrow> error + rat" where
  "quantize max_digits decimal_places x =
     (if fits max_digits decimal_places x then Inr (stored decimal_places x)
      else Inl InvalidOperation)"

text \<open>
  \<^verbatim>\<open>Invoice.objects.create\<close>: \<^verbatim>\<open>Invoice.save\<close> fills in the amounts, the four decimal columns
  are written as the columns hold them (subtotal, tax amount and total with ten digits and
  two places, the tax rate with four digits and two places), and the insert is refused
  (IntegrityError) when the number is taken or when the order already has an invoice (the
  one-to-one field).
\<close>

definition Invoice_objects_create :: "invoice \<Rightarrow> db \<Rightarrow> error option \<times> db" where
  "Invoice_objects_create ivc d =
     (let i = Invoice_save_fields ivc
      in case quantize 10 2 (subtotal i) of
           Inl e \<Rightarrow> (Some e, d)
         | Inr sub \<Rightarrow>
         (case quantize 4 2 (tax_rate i) of
            Inl e \<Rightarrow> (Some e, d)
          | Inr rate \<Rightarrow>
          (case quantize 10 2 (tax_amount i) of
             Inl e \<Rightarrow> (Some e, d)
           | Inr tax \<Rightarrow>
           (case quantize 10 2 (invoice_total_amount i) of
              Inl e \<Rightarrow> (Some e, d)
            | Inr tot \<Rightarrow>
                if list_ex (\<lambda>x. invoice_number x = invoice_number i) (invoices d)
                   \<or> list_ex (\<lambda>x. invoice_order x = invoice_order i) (invoices d)
                then (Some IntegrityError, d)
                else (None,
                      d\<lparr>invoices := invoices d @
                           [i\<lparr>invoice_id := Suc (invoice_seq d), subtotal := sub,
                              tax_rate := rate, tax_amount := tax,
                              invoice_total_amount := tot\<rparr>],
                        invoice_seq := Suc (invoice_seq d)\<rparr>)))))"

text \<open>\<^verbatim>\<open>Invoice.save\<close> on an existing row.\<close>

definition Invoice_save :: "invoice \<Rightarrow> db \<Rightarrow> db" where
  "Invoice_save ivc d =
     d\<lparr>invoices := map (\<lambda>x. if invoice_id x = invoice_id ivc then Invoice_save_fields ivc else x)
                        (invoices d)\<rparr>"

text \<open>\<^verbatim>\<open>handle_order_status_change\<close>, the post-save receiver of Order.\<close>

definition handle_order_status_change :: "order \<Rightarrow> bool \<Rightarrow> db \<Rightarrow> error option \<times> db" where
  "handle_order_status_change instance created d =
     (if created then (None, d)
      else if order_status instance = Order_DELIVERED then
        (if \<not> list_ex (\<lambda>i. invoice_order i = order_id instance) (invoices d) then
           (let issue = today d;
                due = issue + 30
            in case invoice_new_number (invoices d) of
                 Inl e \<Rightarrow> (Some e, d)
               | Inr number \<Rightarrow>
                   (let rate = 20;
                        sub = order_total_amount instance;
                        tax = sub * (rate / 100);
                        total = sub + tax
                    in Invoice_objects_create
                         \<lparr>invoice_id = 0, invoice_number = number,
                          invoice_order = order_id instance,
                          invoice_client = order_client instance,
                          invoice_status = Invoice_PENDING,
                          issue_date = issue, due_date = due,
                          subtotal = sub, tax_rate = rate, tax_amount = tax,
                          invoice_total_amount = total,
                          invoice_notes = ''Automatically generated for delivered order ''
                                          @ order_number instance\<rparr> d))
         else (None, d))
      else (None, d))"

text \<open>
  \<^verbatim>\<open>order.save()\<close> on an existing row writes every field, \<^verbatim>\<open>save(update_fields=['status'])\<close>
  writes the status only; both fire the receiver with \<^verbatim>\<open>created=False\<close> after the write.
\<close>

definition Order_save :: "order \<Rightarrow> db \<Rightarrow> error option \<times> db" where
  "Order_save instance d =
     handle_order_status_change instance False
       (d\<lparr>orders := map (\<lambda>x. if order_id x = order_id instance then instance else x) (orders d)\<rparr>)"

definition Order_save_status :: "order \<Rightarrow> db \<Rightarrow> error option \<times> db" where
  "Order_save_status instance d =
     handle_order_status_change instance False
       (d\<lparr>orders := map (\<lambda>x. if order_id x = order_id instance
                               then x\<lparr>order_status := order_status instance\<rparr> else x)
                      (orders d)\<rparr>)"

text \<open>
  \<^verbatim>\<open>order.delete()\<close>: items and delivery updates cascade, an invoice protects the order.
\<close>

definition Order_delete :: "order \<Rightarrow> db \<Rightarrow> error option \<times> db" where
  "Order_delete instance d =
     (if list_ex (\<lambda>i. invoice_order i = order_id instance) (invoices d)
      then (Some ProtectedError, d)
      else (None, d\<lparr>orders := filter (\<lambda>x. order_id x \<noteq> order_id instance) (orders d),
                     order_items := filter (\<lambda>x. item_order x \<noteq> order_id instance) (order_items d),
                     delivery_updates :=
                       filter (\<lambda>x. ds_order x \<noteq> order_id instance) (delivery_updates d)\<rparr>))"

text \<open>\<^verbatim>\<open>handle_delivery_status_update\<close>, the post-save receiver of DeliveryStatus.\<close>

definition handle_delivery_status_update ::
  "delivery_status \<Rightarrow> bool \<Rightarrow> db \<Rightarrow> error option \<times> db" where
  "handle_delivery_status_update instance created d =
     (case find (\<lambda>x. order_id x = ds_order instance) (orders d) of
        None \<Rightarrow> (None, d)
      | Some ord \<Rightarrow>
          if created \<and> order_status ord \<noteq> ds_status instance
          then Order_save_status (ord\<lparr>order_status := ds_status instance\<rparr>) d
          else (None, d))"

text \<open>Inserting a delivery update; the foreign key needs the order to exist.\<close>

definition DeliveryStatus_objects_create :: "delivery_status \<Rightarrow> db \<Rightarrow> error option \<times> db" where
  "DeliveryStatus_objects_create ds d =
     (if \<not> list_ex (\<lambda>x. order_id x = ds_order ds) (orders d) then (Some IntegrityError, d)
      else
        (let instance = ds\<lparr>ds_id := Suc (delivery_seq d)\<rparr>
         in handle_delivery_status_update instance True
              (d\<lparr>delivery_updates := delivery_updates d @ [instance],
                 delivery_seq := Suc (delivery_seq d)\<rparr>)))"

text \<open>
  \<^verbatim>\<open>OrderItem.save\<close> recomputes the line total; the column check of the positive integer
  field refuses a negative quantity.
\<close>

definition OrderItem_objects_create :: "order_item \<Rightarrow> db \<Rightarrow> error option \<times> db" where
  "OrderItem_objects_create it d =
     (let instance = it\<lparr>total_price := of_int (quantity it) * unit_price it\<rparr>
      in if quantity instance < 0 then (Some IntegrityError, d)
         else (None, d\<lparr>order_items := order_items d @ [instance\<lparr>item_id := Suc (order_item_seq d)\<rparr>],
                        order_item_seq := Suc (order_item_seq d)\<rparr>))"

definition OrderItem_save :: "order_item \<Rightarrow> db \<Rightarrow> error option \<times> db" where
  "OrderItem_save it d =
     (let instance = it\<lparr>total_price := of_int (quantity it) * unit_price it\<rparr>
      in if quantity instance < 0 then (Some IntegrityError, d)
         else (None, d\<lparr>order_items :=
                          map (\<lambda>x. if item_id x = item_id instance then instance else x)
                              (order_items d)\<rparr>))"

text \<open>\<^verbatim>\<open>product.save()\<close> on an existing row, with the column check of the stock quantity.\<close>

definition Product_save :: "product \<Rightarrow> db \<Rightarrow> error option \<times> db" where
  "Product_save p d =
     (if stock_quantity p < 0 then (Some IntegrityError, d)
      else (None, d\<lparr>products := map (\<lambda>x. if product_id x = product_id p then p else x)
                                     (products d)\<rparr>))"

text \<open>
  \<^verbatim>\<open>Payment.save\<close>: the payment is inserted, then the invoice status is derived from the sum
  of the invoice's payments and the invoice is saved.
\<close>

definition Payment_save :: "payment \<Rightarrow> db \<Rightarrow> error option \<times> db" where
  "Payment_save p d =
     (case find (\<lambda>i. invoice_id i = payment_invoice p) (invoices d) of
        None \<Rightarrow> (Some IntegrityError, d)
      | Some ivc \<Rightarrow>
          (let d1 = d\<lparr>payments := payments d @ [p\<lparr>payment_id := Suc (payment_seq d)\<rparr>],
                      payment_seq := Suc (payment_seq d)\<rparr>;
               total_paid = sum_list (map payment_amount
                              (filter (\<lambda>x. payment_invoice x = invoice_id ivc) (payments d1)));
               ivc1 = (if invoice_total_amount ivc \<le> total_paid
                       then ivc\<lparr>invoice_status := Invoice_PAID\<rparr>
                       else if 0 < total_paid
                       then ivc\<lparr>invoice_status := Invoice_PARTIALLY_PAID\<rparr>
                       else ivc)
           in (None, Invoice_save ivc1 d1)))"


section \<open>The order views\<close>

datatype detail =
  EmptyOrder | ShippingAddressRequired | ProductIdRequired
  | InsufficientStock nat int int | ProductDoesNotExist nat | ItemError error
  | AlreadyDelivered

text \<open>
  A response carries what the claims read of it: the primary key of the created row, the
  invoice number quoted in the message of \<^verbatim>\<open>mark_delivered\<close>, the reason of a refusal,
  or the exception that left the view.
\<close>

datatype response =
  HTTP_200_OK "string option"
  | HTTP_201_CREATED nat
  | HTTP_400_BAD_REQUEST detail
  | HTTP_404_NOT_FOUND
  | HTTP_500_INTERNAL_SERVER_ERROR error

text \<open>
  The request body of an order: the writable serializer fields (an absent field is None, an
  absent address is the empty string) and the item entries, each with an optional product
  id and an optional quantity.
\<close>

record order_data =
  data_status :: "Order_Status option"
  data_shipping_address :: string
  data_delivery_notes :: "string option"
  data_delivery_date :: "int option"

record item_data =
  data_product_id :: "nat option"
  data_quantity :: "int option"

text \<open>
  \<^verbatim>\<open>OrderSerializer.create\<close> followed by the insert: the number is generated, the total starts
  at zero, the status is the one of the request or the default of the field.
\<close>

definition OrderSerializer_create ::
  "order_data \<Rightarrow> nat \<Rightarrow> db \<Rightarrow> (error + order) \<times> db" where
  "OrderSerializer_create validated_data client d =
     (case order_new_number (orders d) of
        Inl e \<Rightarrow> (Inl e, d)
      | Inr new_number \<Rightarrow>
          if list_ex (\<lambda>x. order_number x = new_number) (orders d) then (Inl IntegrityError, d)
          else
            (let instance =
                   \<lparr>order_id = Suc (order_seq d), order_number = new_number,
                    order_client = client,
                    order_status = (case data_status validated_data of
                                      None \<Rightarrow> Order_PENDING | Some s \<Rightarrow> s),
                    order_total_amount = 0,
                    shipping_address = data_shipping_address validated_data,
                    delivery_notes = (case data_delivery_notes validated_data of
                                        None \<Rightarrow> [] | Some n \<Rightarrow> n),
                    delivery_date = data_delivery_date validated_data\<rparr>
             in case handle_order_status_change instance True
                       (d\<lparr>orders := orders d @ [instance], order_seq := Suc (order_seq d)\<rparr>) of
                  (None, d1) \<Rightarrow> (Inr instance, d1)
                | (Some e, d1) \<Rightarrow> (Inl e, d1)))"

text \<open>
  The refusal paths of the item loop: \<^verbatim>\<open>order.delete()\<close>, then the response. A delete
  that raises leaves the loop through the outer handler of the view.
\<close>

definition delete_and_respond :: "order \<Rightarrow> response \<Rightarrow> db \<Rightarrow> (response + rat) \<times> db" where
  "delete_and_respond instance resp d =
     (case Order_delete instance d of
        (None, d1) \<Rightarrow> (Inl resp, d1)
      | (Some e, d1) \<Rightarrow> (Inl (HTTP_500_INTERNAL_SERVER_ERROR e), d1))"

text \<open>The loop over \<^verbatim>\<open>items_data\<close> in \<^verbatim>\<open>OrderViewSet.create\<close>, with the running total.\<close>

fun process_items :: "order \<Rightarrow> item_data list \<Rightarrow> rat \<Rightarrow> db \<Rightarrow> (response + rat) \<times> db" where
  "process_items instance [] total_amount d = (Inr total_amount, d)"
| "process_items instance (item # rest) total_amount d =
     (let qty = (case data_quantity item of None \<Rightarrow> 1 | Some q \<Rightarrow> q)
      in case data_product_id item of
           None \<Rightarrow> delete_and_respond instance (HTTP_400_BAD_REQUEST ProductIdRequired) d
         | Some pid \<Rightarrow>
             if pid = 0
             then delete_and_respond instance (HTTP_400_BAD_REQUEST ProductIdRequired) d
             else
               (case find (\<lambda>p. product_id p = pid) (products d) of
                  None \<Rightarrow>
                    delete_and_respond instance (HTTP_400_BAD_REQUEST (ProductDoesNotExist pid)) d
                | Some prd \<Rightarrow>
                    if stock_quantity prd < qty
                    then delete_and_respond instance
                           (HTTP_400_BAD_REQUEST (InsufficientStock pid (stock_quantity prd) qty)) d
                    else
                      (case Product_save (prd\<lparr>stock_quantity := stock_quantity prd - qty\<rparr>) d of
                         (Some e, d1) \<Rightarrow>
                           delete_and_respond instance (HTTP_400_BAD_REQUEST (ItemError e)) d1
                       | (None, d1) \<Rightarrow>
                           (let item_total = price prd * of_int qty
                            in case OrderItem_objects_create
                                      \<lparr>item_id = 0, item_order = order_id instance,
                                       item_product = pid, quantity = qty,
                                       unit_price = price prd, total_price = item_total\<rparr> d1 of
                                 (Some e, d2) \<Rightarrow>
                                   delete_and_respond instance
                                     (HTTP_400_BAD_REQUEST (ItemError e)) d2
                               | (None, d2) \<Rightarrow>
                                   process_items instance rest (total_amount + item_total) d2))))"

text \<open>\<^verbatim>\<open>OrderViewSet.create\<close> for the authenticated user \<open>user\<close>.\<close>

definition OrderViewSet_create ::
  "order_data \<Rightarrow> item_data list \<Rightarrow> nat \<Rightarrow> db \<Rightarrow> response \<times> db" where
  "OrderViewSet_create request_data items_data user d =
     (if items_data = [] then (HTTP_400_BAD_REQUEST EmptyOrder, d)
      else if data_shipping_address request_data = []
      then (HTTP_400_BAD_REQUEST ShippingAddressRequired, d)
      else
        (case OrderSerializer_create request_data user d of
           (Inl e, d1) \<Rightarrow> (HTTP_500_INTERNAL_SERVER_ERROR e, d1)
         | (Inr instance, d1) \<Rightarrow>
             (case process_items instance items_data 0 d1 of
                (Inl resp, d2) \<Rightarrow> (resp, d2)
              | (Inr total_amount, d2) \<Rightarrow>
                  (case Order_save (instance\<lparr>order_total_amount := total_amount\<rparr>) d2 of
                     (Some e, d3) \<Rightarrow> (HTTP_500_INTERNAL_SERVER_ERROR e, d3)
                   | (None, d3) \<Rightarrow> (HTTP_201_CREATED (order_id instance), d3)))))"

text \<open>
  \<^verbatim>\<open>OrderViewSet.mark_delivered\<close>. An exception of the save leaves the view after the status
  was written; otherwise the message names the invoice found for the order.
\<close>

definition mark_delivered :: "nat \<Rightarrow> db \<Rightarrow> response \<times> db" where
  "mark_delivered pk d =
     (case find (\<lambda>x. order_id x = pk) (orders d) of
        None \<Rightarrow> (HTTP_404_NOT_FOUND, d)
      | Some instance \<Rightarrow>
          if order_status instance = Order_DELIVERED
          then (HTTP_400_BAD_REQUEST AlreadyDelivered, d)
          else
            (case Order_save (instance\<lparr>order_status := Order_DELIVERED\<rparr>) d of
               (Some e, d1) \<Rightarrow> (HTTP_500_INTERNAL_SERVER_ERROR e, d1)
             | (None, d1) \<Rightarrow>
                 (HTTP_200_OK (map_option invoice_number
                                 (find (\<lambda>i. invoice_order i = pk) (invoices d1))), d1)))"

text \<open>
  \<^verbatim>\<open>OrderViewSet.add_delivery_status\<close>: the event is created for the order of the URL,
  by the authenticated user.
\<close>

definition add_delivery_status ::
  "nat \<Rightarrow> Order_Status \<Rightarrow> string \<Rightarrow> string \<Rightarrow> nat \<Rightarrow> db \<Rightarrow> response \<times> db" where
  "add_delivery_status pk st location notes user d =
     (case find (\<lambda>x. order_id x = pk) (orders d) of
        None \<Rightarrow> (HTTP_404_NOT_FOUND, d)
      | Some instance \<Rightarrow>
          (case DeliveryStatus_objects_create
                  \<lparr>ds_id = 0, ds_order = order_id instance, ds_status = st,
                   ds_location = location, ds_notes = notes, ds_updated_by = user\<rparr> d of
             (Some e, d1) \<Rightarrow> (HTTP_500_INTERNAL_SERVER_ERROR e, d1)
           | (None, d1) \<Rightarrow> (HTTP_201_CREATED (Suc (delivery_seq d)), d1)))"

text \<open>
  The update of the model view set (PUT or PATCH on an order), the direct status
  transition: the serializer refuses data without a shipping address, then the supplied
  fields are set and the order is saved.
\<close>

definition OrderViewSet_update :: "nat \<Rightarrow> order_data \<Rightarrow> db \<Rightarrow> response \<times> db" where
  "OrderViewSet_update pk request_data d =
     (case find (\<lambda>x. order_id x = pk) (orders d) of
        None \<Rightarrow> (HTTP_404_NOT_FOUND, d)
      | Some instance \<Rightarrow>
          if data_shipping_address request_data = []
          then (HTTP_400_BAD_REQUEST ShippingAddressRequired, d)
          else
            (case Order_save
                    (instance\<lparr>order_status := (case data_status request_data of
                                                  None \<Rightarrow> order_status instance | Some s \<Rightarrow> s),
                              shipping_address := data_shipping_address request_data,
                              delivery_notes := (case data_delivery_notes request_data of
                                                   None \<Rightarrow> delivery_notes instance | Some n \<Rightarrow> n),
                              delivery_date := (case data_delivery_date request_data of
                                                  None \<Rightarrow> delivery_date instance
                                                | Some dd \<Rightarrow> Some dd)\<rparr>) d of
               (Some e, d1) \<Rightarrow> (HTTP_500_INTERNAL_SERVER_ERROR e, d1)
             | (None, d1) \<Rightarrow> (HTTP_200_OK None, d1)))"

section \<open>Measurements used by the statements\<close>


definition get_order :: "nat \<Rightarrow> db \<Rightarrow> order option" where
  "get_order pk d = find (\<lambda>x. order_id x = pk) (orders d)"

definition get_invoice :: "nat \<Rightarrow> db \<Rightarrow> invoice option" where
  "get_invoice pk d = find (\<lambda>i. invoice_id i = pk) (invoices d)"

text \<open>\<^verbatim>\<open>InvoiceSerializer.get_total_paid\<close>: the sum of the payments of an invoice.\<close>

definition get_total_paid :: "nat \<Rightarrow> db \<Rightarrow> rat" where
  "get_total_paid pk d =
     sum_list (map payment_amount (filter (\<lambda>x. payment_invoice x = pk) (payments d)))"

text \<open>The sum over the items of an order of quantity times unit price.\<close>

definition items_total :: "nat \<Rightarrow> db \<Rightarrow> rat" where
  "items_total oid d =
     sum_list (map (\<lambda>it. of_int (quantity it) * unit_price it)
                   (filter (\<lambda>it. item_order it = oid) (order_items d)))"

section \<open>Example data\<close>

definition empty_db :: db where
  "empty_db =
     \<lparr>today = 100, products = [], orders = [], order_seq = 0, order_items = [],
      order_item_seq = 0, delivery_updates = [], delivery_seq = 0, invoices = [],
      invoice_seq = 0, payments = [], payment_seq = 0, credit_notes = [],
      credit_note_seq = 0, quotes = [], quote_seq = 0\<rparr>"

definition shop_db :: db where
  "shop_db =
     empty_db\<lparr>products :=
       [\<lparr>product_id = 1, product_name = ''A'', price = 10, stock_quantity = 5\<rparr>,
        \<lparr>product_id = 2, product_name = ''B'', price = 5, stock_quantity = 3\<rparr>]\<rparr>"

definition order1 :: order where
  "order1 =
     \<lparr>order_id = 1, order_number = ''ORD000001'', order_client = 7,
      order_status = Order_PENDING, order_total_amount = 25,
      shipping_address = ''1 Main St'', delivery_notes = [], delivery_date = None\<rparr>"

definition invoice1 :: invoice where
  "invoice1 =
     \<lparr>invoice_id = 1, invoice_number = ''INV000001'', invoice_order = 1, invoice_client = 7,
      invoice_status = Invoice_PENDING, issue_date = 100, due_date = 130, subtotal = 25,
      tax_rate = 20, tax_amount = 5, invoice_total_amount = 30,
      invoice_notes = ''Automatically generated for delivered order ORD000001''\<rparr>"

definition pending_db :: db where
  "pending_db = shop_db\<lparr>orders := [order1], order_seq := 1\<rparr>"

definition invoiced_db :: db where
  "invoiced_db =
     shop_db\<lparr>orders := [order1\<lparr>order_status := Order_DELIVERED\<rparr>], order_seq := 1,
             invoices := [invoice1], invoice_seq := 1\<rparr>"

definition payment30 :: payment where
  "payment30 =
     \<lparr>payment_id = 0, payment_invoice = 1, payment_amount = 30,
      payment_method = BANK_TRANSFER, payment_date = 101, payment_created_by = 7\<rparr>"

definition order_data1 :: order_data where
  "order_data1 =
     \<lparr>data_status = None, data_shipping_address = ''1 Main St'',
      data_delivery_notes = None, data_delivery_date = None\<rparr>"

definition order2 :: order where
  "order2 =
     \<lparr>order_id = 2, order_number = ''ORD000002'', order_client = 8,
      order_status = Order_DELIVERED, order_total_amount = 40,
      shipping_address = ''2 Oak Ave'', delivery_notes = [], delivery_date = None\<rparr>"

text \<open>An invoice table whose most recent number was typed by hand in another format.\<close>

definition corrupt_db :: db where
  "corrupt_db =
     shop_db\<lparr>orders := [order1\<lparr>order_status := Order_DELIVERED\<rparr>, order2], order_seq := 2,
             invoices := [invoice1\<lparr>invoice_number := ''INV-2024-001''\<rparr>], invoice_seq := 1\<rparr>"

definition cancelled_db :: db where
  "cancelled_db = shop_db\<lparr>orders := [order1\<lparr>order_status := Order_CANCELLED\<rparr>], order_seq := 1\<rparr>"

definition items1 :: "item_data list" where
  "items1 =
     [\<lparr>data_product_id = Some 1, data_quantity = Some 2\<rparr>,
      \<lparr>data_product_id = Some 2, data_quantity = Some 1\<rparr>]"

text \<open>A request whose second item names a product that does not exist.\<close>

definition items_unknown :: "item_data list" where
  "items_unknown =
     [\<lparr>data_product_id = Some 1, data_quantity = Some 2\<rparr>,
      \<lparr>data_product_id = Some 99, data_quantity = Some 1\<rparr>]"

definition credit_note1 :: credit_note where
  "credit_note1 =
     \<lparr>cn_id = 0, credit_note_number = [], cn_invoice = 1, cn_amount = 6,
      reason = ''damaged panel'', cn_issue_date = 102, cn_created_by = 7\<rparr>"

text \<open>The database after the order of the specification's example was created.\<close>

definition created_db :: db where
  "created_db = snd (OrderViewSet_create order_data1 items1 7 shop_db)"

definition quote7 :: quote where
  "quote7 =
     \<lparr>quote_id = 7, quote_number = ''Q-00003'', quote_customer = 7, quote_subtotal = 10,
      quote_discount = 0, quote_tax = 2, quote_total = 12\<rparr>"

definition new_quote :: quote where
  "new_quote =
     \<lparr>quote_id = 0, quote_number = [], quote_customer = 7, quote_subtotal = 10,
      quote_discount = 0, quote_tax = 2, quote_total = 0\<rparr>"



text \<open>Order 1 delivered and invoiced, order 2 still pending.\<close>

definition two_orders_db :: db where
  "two_orders_db =
     shop_db\<lparr>orders := [order1\<lparr>order_status := Order_DELIVERED\<rparr>,
                        order2\<lparr>order_status := Order_PENDING\<rparr>],
             order_seq := 2, invoices := [invoice1], invoice_seq := 1\<rparr>"

text \<open>The same with the hand-typed invoice number.\<close>

definition corrupt_pending_db :: db where
  "corrupt_pending_db =
     corrupt_db\<lparr>orders := [order1\<lparr>order_status := Order_DELIVERED\<rparr>,
                           order2\<lparr>order_status := Order_PENDING\<rparr>]\<rparr>"

text \<open>A delivered order of 10.01 that has no invoice yet.\<close>

definition order_cents :: order where
  "order_cents = order1\<lparr>order_status := Order_DELIVERED, order_total_amount := 1001 / 100\<rparr>"

definition cents_db :: db where
  "cents_db = shop_db\<lparr>orders := [order_cents], order_seq := 1\<rparr>"

text \<open>Credit note tables: one generated number, and one number typed by hand.\<close>

definition credit_db :: db where
  "credit_db =
     invoiced_db\<lparr>credit_notes := [credit_note1\<lparr>cn_id := 1, credit_note_number := ''CN000001''\<rparr>],
                 credit_note_seq := 1\<rparr>"

definition credit_corrupt_db :: db where
  "credit_corrupt_db =
     invoiced_db\<lparr>credit_notes := [credit_note1\<lparr>cn_id := 1, credit_note_number := ''CN/7''\<rparr>],
                 credit_note_seq := 1\<rparr>"

section \<open>Auxiliary facts\<close>

lemma find_key: "find (\<lambda>x. k x = a) xs = Some y \<Longrightarrow> k y = a"
  by (induction xs) (auto split: if_splits)

lemma find_map_upd:
  "find (\<lambda>x. k x = a) xs = Some y \<Longrightarrow> k z = a \<Longrightarrow>
   find (\<lambda>x. k x = a) (map (\<lambda>x. if k x = a then z else x) xs) = Some z"
  by (induction xs) (auto split: if_splits)

lemma Invoice_save_fields_id [simp]: "invoice_id (Invoice_save_fields i) = invoice_id i"
  by (simp add: Invoice_save_fields_def Let_def)

lemma Invoice_save_fields_status [simp]:
  "invoice_status (Invoice_save_fields i) = invoice_status i"
  by (simp add: Invoice_save_fields_def Let_def)

lemma handler_frame:
  "orders (snd (handle_order_status_change i c d)) = orders d"
  "delivery_updates (snd (handle_order_status_change i c d)) = delivery_updates d"
  "order_items (snd (handle_order_status_change i c d)) = order_items d"
  "products (snd (handle_order_status_change i c d)) = products d"
  "payments (snd (handle_order_status_change i c d)) = payments d"
  "credit_notes (snd (handle_order_status_change i c d)) = credit_notes d"
  by (simp_all add: handle_order_status_change_def Invoice_objects_create_def quantize_def
      Let_def split: sum.split)



lemma handler_not_delivered:
  "order_status i \<noteq> Order_DELIVERED \<Longrightarrow> handle_order_status_change i c d = (None, d)"
  by (simp add: handle_order_status_change_def)



lemma Order_save_frame:
  "orders (snd (Order_save i d)) = map (\<lambda>x. if order_id x = order_id i then i else x) (orders d)"
  "delivery_updates (snd (Order_save i d)) = delivery_updates d"
  "order_items (snd (Order_save i d)) = order_items d"
  "products (snd (Order_save i d)) = products d"
  by (simp_all add: Order_save_def handler_frame)

lemma Order_save_status_frame:
  "orders (snd (Order_save_status i d)) =
     map (\<lambda>x. if order_id x = order_id i then x\<lparr>order_status := order_status i\<rparr> else x) (orders d)"
  "delivery_updates (snd (Order_save_status i d)) = delivery_updates d"
  "order_items (snd (Order_save_status i d)) = order_items d"
  "products (snd (Order_save_status i d)) = products d"
  by (simp_all add: Order_save_status_def handler_frame)

lemma decimal_examples:
  "fits 10 2 25" "fits 10 2 5" "fits 10 2 30" "fits 4 2 20"
  "stored 2 25 = 25" "stored 2 5 = 5" "stored 2 30 = 30" "stored 2 20 = 20"
  "fits 10 2 40" "fits 10 2 8" "fits 10 2 48"
  "stored 2 40 = 40" "stored 2 8 = 8" "stored 2 48 = 48"
  by code_simp+

lemmas example_defs = pending_db_def invoiced_db_def cancelled_db_def corrupt_db_def shop_db_def
  empty_db_def order1_def order2_def invoice1_def order_data1_def items1_def items_unknown_def
  credit_note1_def quote7_def new_quote_def two_orders_db_def corrupt_pending_db_def
  order_cents_def cents_db_def credit_db_def credit_corrupt_db_def

lemmas number_defs = py_int_def strip_def isspace_def isdigit_def digit_val_def
  order_new_number_def invoice_new_number_def credit_note_new_number_def

lemma find_map_fun:
  "find (\<lambda>x. k x = a) xs = Some y \<Longrightarrow> (\<And>x. k (f x) = k x) \<Longrightarrow>
   find (\<lambda>x. k x = a) (map (\<lambda>x. if k x = a then f x else x) xs) = Some (f y)"
  by (induction xs) (auto split: if_splits)

lemma mark_delivered_snd:
  "snd (mark_delivered pk d) =
     (case find (\<lambda>x. order_id x = pk) (orders d) of
        None \<Rightarrow> d
      | Some i \<Rightarrow> if order_status i = Order_DELIVERED then d
                  else snd (Order_save (i\<lparr>order_status := Order_DELIVERED\<rparr>) d))"
  by (simp add: mark_delivered_def split_def split: option.split)

lemma add_delivery_status_snd:
  assumes f: "find (\<lambda>x. order_id x = pk) (orders d) = Some ord"
  shows "snd (add_delivery_status pk st loc notes user d)
     = (if order_status ord \<noteq> st
        then snd (Order_save_status (ord\<lparr>order_status := st\<rparr>)
               (d\<lparr>delivery_updates := delivery_updates d @
                    [\<lparr>ds_id = Suc (delivery_seq d), ds_order = pk, ds_status = st,
                      ds_location = loc, ds_notes = notes, ds_updated_by = user\<rparr>],
                  delivery_seq := Suc (delivery_seq d)\<rparr>))
        else d\<lparr>delivery_updates := delivery_updates d @
                    [\<lparr>ds_id = Suc (delivery_seq d), ds_order = pk, ds_status = st,
                      ds_location = loc, ds_notes = notes, ds_updated_by = user\<rparr>],
                  delivery_seq := Suc (delivery_seq d)\<rparr>)"
proof -
  have k: "order_id ord = pk" using find_key [OF f] .
  have ex: "list_ex (\<lambda>x. order_id x = pk) (orders d)"
    using f by (auto simp: list_ex_iff find_Some_iff)
  show ?thesis
    using f k ex
    by (simp add: add_delivery_status_def DeliveryStatus_objects_create_def
        handle_delivery_status_update_def Let_def split_def split: option.split)
qed

lemma delete_and_respond_Inl: "fst (delete_and_respond i r d) \<noteq> Inr t"
  by (simp add: delete_and_respond_def split_def split: option.split)

lemma delete_and_respond_not_Inr [simp]: "delete_and_respond i r d \<noteq> (Inr t, d')"
  using delete_and_respond_Inl [of i r d t] by auto

lemma process_items_ok:
  "process_items inst items acc d = (Inr tot, d') \<Longrightarrow>
   items_total (order_id inst) d' = items_total (order_id inst) d + (tot - acc)
   \<and> orders d' = orders d \<and> invoices d' = invoices d"
proof (induction items arbitrary: acc d)
  case Nil
  then show ?case by simp
next
  case (Cons item rest)
  let ?qty = "case data_quantity item of None \<Rightarrow> 1 | Some q \<Rightarrow> q"
  from Cons.prems obtain pid where pid: "data_product_id item = Some pid" "pid \<noteq> 0"
    by (cases "data_product_id item") (auto simp: Let_def split: if_splits)
  from Cons.prems pid obtain prd where prd: "find (\<lambda>p. product_id p = pid) (products d) = Some prd"
    by (cases "find (\<lambda>p. product_id p = pid) (products d)") (auto simp: Let_def)
  from Cons.prems pid prd have stock: "\<not> stock_quantity prd < ?qty"
    by (auto simp: Let_def split: if_splits)
  let ?d1 = "d\<lparr>products := map (\<lambda>x. if product_id x = product_id (prd\<lparr>stock_quantity := stock_quantity prd - ?qty\<rparr>)
                 then prd\<lparr>stock_quantity := stock_quantity prd - ?qty\<rparr> else x) (products d)\<rparr>"
  have ps: "Product_save (prd\<lparr>stock_quantity := stock_quantity prd - ?qty\<rparr>) d = (None, ?d1)"
    using stock by (simp add: Product_save_def)
  let ?it = "\<lparr>item_id = 0, item_order = order_id inst, item_product = pid, quantity = ?qty,
             unit_price = price prd, total_price = price prd * of_int ?qty\<rparr>"
  from Cons.prems pid prd stock ps have q: "\<not> ?qty < 0"
    by (auto simp: Let_def OrderItem_objects_create_def split: if_splits)
  let ?d2 = "?d1\<lparr>order_items := order_items ?d1 @
       [?it\<lparr>total_price := of_int ?qty * price prd, item_id := Suc (order_item_seq ?d1)\<rparr>],
       order_item_seq := Suc (order_item_seq ?d1)\<rparr>"
  have oc: "OrderItem_objects_create ?it ?d1 = (None, ?d2)"
    using q by (simp add: OrderItem_objects_create_def Let_def)
  from Cons.prems pid prd stock ps oc
  have rec: "process_items inst rest (acc + price prd * of_int ?qty) ?d2 = (Inr tot, d')"
    by (simp add: Let_def)
  from Cons.IH [OF rec]
  show ?case by (simp add: items_total_def algebra_simps)
qed

lemma delete_and_respond_201:
  "r \<noteq> HTTP_201_CREATED oid \<Longrightarrow> fst (delete_and_respond i r d) \<noteq> Inl (HTTP_201_CREATED oid)"
  by (simp add: delete_and_respond_def split_def split: option.split)

lemma process_items_201:
  "fst (process_items inst items acc d) \<noteq> Inl (HTTP_201_CREATED oid)"
proof (induction items arbitrary: acc d)
  case Nil
  then show ?case by simp
next
  case (Cons item rest)
  show ?case
    by (simp add: Let_def split_def delete_and_respond_201 Cons.IH
        split: option.split)
qed

lemma find_map_const:
  "list_ex (\<lambda>x. k x = a) xs \<Longrightarrow> k z = a \<Longrightarrow>
   find (\<lambda>x. k x = a) (map (\<lambda>x. if k x = a then z else x) xs) = Some z"
  by (induction xs) auto

lemma OrderSerializer_create_ok:
  "OrderSerializer_create vd client d = (Inr inst, d1) \<Longrightarrow>
   order_id inst = Suc (order_seq d) \<and> orders d1 = orders d @ [inst]
   \<and> order_items d1 = order_items d"
  by (auto simp: OrderSerializer_create_def handle_order_status_change_def Let_def
      split: sum.splits if_splits)

lemma created_db_eval:
  "OrderViewSet_create order_data1 items1 7 shop_db = (HTTP_201_CREATED 1, created_db)"
  by (simp add: created_db_def OrderViewSet_create_def OrderSerializer_create_def
      handle_order_status_change_def Order_save_def Product_save_def
      OrderItem_objects_create_def delete_and_respond_def Order_delete_def Let_def
      example_defs number_defs)

lemma created_db_rows:
  "orders created_db = [order1]"
  "order_items created_db =
     [\<lparr>item_id = 1, item_order = 1, item_product = 1, quantity = 2, unit_price = 10,
       total_price = 20\<rparr>,
      \<lparr>item_id = 2, item_order = 1, item_product = 2, quantity = 1, unit_price = 5,
       total_price = 5\<rparr>]"
  by (simp_all add: created_db_def OrderViewSet_create_def OrderSerializer_create_def
      handle_order_status_change_def Order_save_def Product_save_def
      OrderItem_objects_create_def delete_and_respond_def Order_delete_def Let_def
      example_defs number_defs)




























lemma handler_seq_frame:
  "invoices (snd (handle_order_status_change i True d)) = invoices d"
  by (simp add: handle_order_status_change_def)





lemma Invoice_save_fields_order [simp]:
  "invoice_order (Invoice_save_fields i) = invoice_order i"
  by (simp add: Invoice_save_fields_def Let_def)














section \<open>Payments derive the invoice status\<close>

text \<open>
  Claim C2. Recording a payment against an existing invoice succeeds and appends the
  payment; with \<open>paid\<close> the sum of the invoice's payments after the insert, the stored
  status of the invoice becomes Paid when \<open>paid\<close> reaches the invoice total, PartiallyPaid
  when \<open>paid\<close> is positive and below the total, and stays what it was otherwise.
\<close>

theorem payment_sets_invoice_status:
  assumes "get_invoice (payment_invoice p) d = Some ivc"
  shows "fst (Payment_save p d) = None
     \<and> payments (snd (Payment_save p d)) = payments d @ [p\<lparr>payment_id := Suc (payment_seq d)\<rparr>]
     \<and> map_option invoice_status (get_invoice (payment_invoice p) (snd (Payment_save p d)))
         = Some (if invoice_total_amount ivc
                      \<le> get_total_paid (payment_invoice p) (snd (Payment_save p d))
                 then Invoice_PAID
                 else if 0 < get_total_paid (payment_invoice p) (snd (Payment_save p d))
                 then Invoice_PARTIALLY_PAID
                 else invoice_status ivc)"
proof -
  from assms have f: "find (\<lambda>i. invoice_id i = payment_invoice p) (invoices d) = Some ivc"
    by (simp add: get_invoice_def)
  then have k: "invoice_id ivc = payment_invoice p" by (rule find_key)
  show ?thesis
    using f k
    by (auto simp: Payment_save_def Let_def Invoice_save_def get_invoice_def get_total_paid_def
        find_map_upd)
qed

lemma paid30: "get_total_paid (Suc 0) (snd (Payment_save payment30 invoiced_db)) = 30"
  by (simp add: Payment_save_def Let_def Invoice_save_def payment30_def invoiced_db_def
      invoice1_def shop_db_def empty_db_def get_total_paid_def)

theorem payment_sets_invoice_status_witness:
  "get_invoice (payment_invoice payment30) invoiced_db = Some invoice1
   \<and> map_option invoice_status
        (get_invoice 1 (snd (Payment_save payment30 invoiced_db))) = Some Invoice_PAID"
proof -
  have h: "get_invoice (payment_invoice payment30) invoiced_db = Some invoice1"
    by (simp add: payment30_def invoiced_db_def invoice1_def shop_db_def empty_db_def
        get_invoice_def)
  have p: "payment_invoice payment30 = Suc 0" by (simp add: payment30_def)
  have t: "invoice_total_amount invoice1 = 30" by (simp add: invoice1_def)
  show ?thesis
    using payment_sets_invoice_status [OF h] h by (simp add: p t paid30)
qed

section \<open>The creating save of an order\<close>

text \<open>
  Claim C10. The post-save receiver of Order returns at once on a creating save, whatever
  the status of the new order, so inserting an order (also one whose status is Delivered)
  leaves the invoice table as it was.
\<close>

theorem creating_save_makes_no_invoice:
  "handle_order_status_change instance True d = (None, d)
   \<and> invoices (snd (OrderSerializer_create validated_data client d)) = invoices d"
  by (simp add: handle_order_status_change_def OrderSerializer_create_def Let_def
      split: sum.split)

section \<open>Invoice creation on delivery\<close>




section \<open>Marking an order delivered\<close>




section \<open>Delivery events and the order status\<close>

text \<open>
  Claim C7. Adding a delivery-status event to an order appends the event. When the status
  of the event equals the current status of the order nothing else is written; when it
  differs, the status of the order row is overwritten with the status of the event. In
  the other direction nothing is synchronised: \<^verbatim>\<open>mark_delivered\<close> and the update of an
  order leave the table of delivery events unchanged.
\<close>

theorem delivery_event_sync:
  assumes "get_order pk d = Some ord"
  shows
  "delivery_updates (snd (add_delivery_status pk st loc notes user d))
     = delivery_updates d @
       [\<lparr>ds_id = Suc (delivery_seq d), ds_order = pk, ds_status = st, ds_location = loc,
         ds_notes = notes, ds_updated_by = user\<rparr>]
   \<and> (order_status ord = st
      \<longrightarrow> add_delivery_status pk st loc notes user d
          = (HTTP_201_CREATED (Suc (delivery_seq d)),
             d\<lparr>delivery_updates := delivery_updates d @
                  [\<lparr>ds_id = Suc (delivery_seq d), ds_order = pk, ds_status = st,
                    ds_location = loc, ds_notes = notes, ds_updated_by = user\<rparr>],
                delivery_seq := Suc (delivery_seq d)\<rparr>))
   \<and> (order_status ord \<noteq> st
      \<longrightarrow> orders (snd (add_delivery_status pk st loc notes user d))
            = map (\<lambda>x. if order_id x = pk then x\<lparr>order_status := st\<rparr> else x) (orders d)
          \<and> get_order pk (snd (add_delivery_status pk st loc notes user d))
            = Some (ord\<lparr>order_status := st\<rparr>))
   \<and> delivery_updates (snd (mark_delivered pk d)) = delivery_updates d
   \<and> delivery_updates (snd (OrderViewSet_update pk request_data d)) = delivery_updates d"
proof -
  from assms have f: "find (\<lambda>x. order_id x = pk) (orders d) = Some ord"
    by (simp add: get_order_def)
  then have k: "order_id ord = pk" by (rule find_key)
  have ex: "list_ex (\<lambda>x. order_id x = pk) (orders d)"
    using f by (auto simp: list_ex_iff find_Some_iff)
  let ?ev = "\<lparr>ds_id = Suc (delivery_seq d), ds_order = pk, ds_status = st, ds_location = loc,
         ds_notes = notes, ds_updated_by = user\<rparr>"
  let ?d1 = "d\<lparr>delivery_updates := delivery_updates d @ [?ev],
                delivery_seq := Suc (delivery_seq d)\<rparr>"
  have c: "DeliveryStatus_objects_create
             \<lparr>ds_id = 0, ds_order = order_id ord, ds_status = st, ds_location = loc,
              ds_notes = notes, ds_updated_by = user\<rparr> d
           = (if order_status ord \<noteq> st
              then Order_save_status (ord\<lparr>order_status := st\<rparr>) ?d1 else (None, ?d1))"
    using f ex k
    by (simp add: DeliveryStatus_objects_create_def handle_delivery_status_update_def Let_def)
  have s: "snd (add_delivery_status pk st loc notes user d)
           = (if order_status ord \<noteq> st
              then snd (Order_save_status (ord\<lparr>order_status := st\<rparr>) ?d1) else ?d1)"
    using f by (simp add: add_delivery_status_def c split: prod.split option.split)
  have 1: "delivery_updates (snd (add_delivery_status pk st loc notes user d))
     = delivery_updates d @ [?ev]"
    by (simp add: s Order_save_status_frame)
  have 2: "order_status ord = st \<Longrightarrow> add_delivery_status pk st loc notes user d
          = (HTTP_201_CREATED (Suc (delivery_seq d)), ?d1)"
    using f by (simp add: add_delivery_status_def c)
  have 3: "order_status ord \<noteq> st \<Longrightarrow>
      orders (snd (add_delivery_status pk st loc notes user d))
            = map (\<lambda>x. if order_id x = pk then x\<lparr>order_status := st\<rparr> else x) (orders d)"
    using k by (simp add: s Order_save_status_frame)
  have "find (\<lambda>x. order_id x = pk)
          (map (\<lambda>x. if order_id x = pk then x\<lparr>order_status := st\<rparr> else x) (orders d))
        = Some (ord\<lparr>order_status := st\<rparr>)"
    using find_map_fun [OF f, of "\<lambda>x. x\<lparr>order_status := st\<rparr>"] by simp
  then have 4: "order_status ord \<noteq> st \<Longrightarrow>
      get_order pk (snd (add_delivery_status pk st loc notes user d))
            = Some (ord\<lparr>order_status := st\<rparr>)"
    by (simp add: get_order_def 3)
  have 5: "delivery_updates (snd (mark_delivered pk d)) = delivery_updates d"
    by (simp add: mark_delivered_snd Order_save_frame split: option.split)
  have 6: "delivery_updates (snd (OrderViewSet_update pk request_data d)) = delivery_updates d"
    by (simp add: OrderViewSet_update_def split_def Order_save_frame split: option.split)
  from 1 2 3 4 5 6 show ?thesis by blast
qed

theorem delivery_event_sync_witness:
  "get_order 1 pending_db = Some order1
   \<and> get_order 1 (snd (add_delivery_status 1 Order_IN_TRANSIT ''Depot'' [] 9 pending_db))
       = Some (order1\<lparr>order_status := Order_IN_TRANSIT\<rparr>)
   \<and> delivery_updates (snd (add_delivery_status 1 Order_PENDING ''Depot'' [] 9 pending_db))
       = [\<lparr>ds_id = 1, ds_order = 1, ds_status = Order_PENDING, ds_location = ''Depot'',
           ds_notes = [], ds_updated_by = 9\<rparr>]
   \<and> orders (snd (add_delivery_status 1 Order_PENDING ''Depot'' [] 9 pending_db)) = [order1]
   \<and> delivery_updates (snd (mark_delivered 1 pending_db)) = []"
proof -
  have h: "get_order 1 pending_db = Some order1"
    by (simp add: get_order_def example_defs)
  have n: "order_status order1 \<noteq> Order_IN_TRANSIT" "order_status order1 = Order_PENDING"
    by (simp_all add: order1_def)
  have p: "delivery_updates pending_db = []" "delivery_seq pending_db = 0"
    "orders pending_db = [order1]"
    by (simp_all add: example_defs)
  show ?thesis
    using delivery_event_sync [OF h, of Order_IN_TRANSIT "''Depot''" "[]" 9]
      delivery_event_sync [OF h, of Order_PENDING "''Depot''" "[]" 9] h
    by (simp add: n p)
qed

section \<open>Initial status and terminal statuses\<close>

text \<open>
  Claim C9, as amended. An order is created with the status of the request, Pending when
  the request gives none. An order that is already Delivered is left unchanged by
  \<^verbatim>\<open>mark_delivered\<close>. No other immutability holds: \<^verbatim>\<open>mark_delivered\<close> sets a Cancelled
  order to Delivered, and a delivery-status event with another status overwrites the
  status of any order, a Delivered or Cancelled one included.
\<close>

theorem order_status_rules:
  "(OrderSerializer_create validated_data client d = (Inr instance, d1)
      \<longrightarrow> order_status instance
          = (case data_status validated_data of None \<Rightarrow> Order_PENDING | Some s \<Rightarrow> s))
   \<and> (get_order pk d = Some ord \<and> order_status ord = Order_DELIVERED
      \<longrightarrow> mark_delivered pk d = (HTTP_400_BAD_REQUEST AlreadyDelivered, d))
   \<and> (get_order pk d = Some ord \<and> order_status ord = Order_CANCELLED
      \<longrightarrow> get_order pk (snd (mark_delivered pk d))
          = Some (ord\<lparr>order_status := Order_DELIVERED\<rparr>))
   \<and> (get_order pk d = Some ord \<and> order_status ord \<noteq> st
      \<longrightarrow> get_order pk (snd (add_delivery_status pk st loc notes user d))
          = Some (ord\<lparr>order_status := st\<rparr>))"
proof (intro conjI impI)
  assume "OrderSerializer_create validated_data client d = (Inr instance, d1)"
  then show "order_status instance
          = (case data_status validated_data of None \<Rightarrow> Order_PENDING | Some s \<Rightarrow> s)"
    by (auto simp: OrderSerializer_create_def handle_order_status_change_def Let_def
        split: sum.splits if_splits)
next
  assume a: "get_order pk d = Some ord \<and> order_status ord = Order_DELIVERED"
  then have "find (\<lambda>x. order_id x = pk) (orders d) = Some ord" by (simp add: get_order_def)
  with a show "mark_delivered pk d = (HTTP_400_BAD_REQUEST AlreadyDelivered, d)"
    by (simp add: mark_delivered_def)
next
  assume a: "get_order pk d = Some ord \<and> order_status ord = Order_CANCELLED"
  then have f: "find (\<lambda>x. order_id x = pk) (orders d) = Some ord" by (simp add: get_order_def)
  then have k: "order_id (ord\<lparr>order_status := Order_DELIVERED\<rparr>) = pk"
    using find_key [OF f] by simp
  show "get_order pk (snd (mark_delivered pk d)) = Some (ord\<lparr>order_status := Order_DELIVERED\<rparr>)"
    using find_map_upd [OF f k] a f k
    by (simp add: mark_delivered_snd get_order_def Order_save_frame)
next
  assume a: "get_order pk d = Some ord \<and> order_status ord \<noteq> st"
  then have f: "find (\<lambda>x. order_id x = pk) (orders d) = Some ord" by (simp add: get_order_def)
  have k: "order_id ord = pk" using find_key [OF f] .
  have ex: "list_ex (\<lambda>x. order_id x = pk) (orders d)"
    using f by (auto simp: list_ex_iff find_Some_iff)
  have "orders (snd (add_delivery_status pk st loc notes user d))
      = map (\<lambda>x. if order_id x = pk then x\<lparr>order_status := st\<rparr> else x) (orders d)"
    using k a by (simp add: add_delivery_status_snd [OF f] Order_save_status_frame)
  then show "get_order pk (snd (add_delivery_status pk st loc notes user d))
          = Some (ord\<lparr>order_status := st\<rparr>)"
    using find_map_fun [OF f, of "\<lambda>x. x\<lparr>order_status := st\<rparr>"] by (simp add: get_order_def)
qed

theorem order_status_rules_witness:
  "get_order 1 cancelled_db = Some (order1\<lparr>order_status := Order_CANCELLED\<rparr>)
   \<and> get_order 1 (snd (mark_delivered 1 cancelled_db))
       = Some (order1\<lparr>order_status := Order_DELIVERED\<rparr>)
   \<and> get_order 1 (snd (add_delivery_status 1 Order_PENDING [] [] 9 cancelled_db))
       = Some (order1\<lparr>order_status := Order_PENDING\<rparr>)
   \<and> get_order 1 invoiced_db = Some (order1\<lparr>order_status := Order_DELIVERED\<rparr>)
   \<and> mark_delivered 1 invoiced_db = (HTTP_400_BAD_REQUEST AlreadyDelivered, invoiced_db)"
proof -
  have h: "get_order 1 cancelled_db = Some (order1\<lparr>order_status := Order_CANCELLED\<rparr>)"
    by (simp add: get_order_def example_defs)
  have h2: "get_order 1 invoiced_db = Some (order1\<lparr>order_status := Order_DELIVERED\<rparr>)"
    by (simp add: get_order_def example_defs)
  show ?thesis
    using order_status_rules [of _ _ cancelled_db _ _ 1 "order1\<lparr>order_status := Order_CANCELLED\<rparr>" Order_PENDING "[]" "[]" 9]
      order_status_rules [of _ _ invoiced_db _ _ 1 "order1\<lparr>order_status := Order_DELIVERED\<rparr>"]
      h h2
    by simp
qed

text \<open>
  Claim C9 as stated fails twice: \<^verbatim>\<open>mark_delivered\<close> changes the status of a Cancelled
  order, and an order whose request carries the status Delivered is created Delivered.
\<close>

theorem terminal_order_counterexample:
  "get_order 1 cancelled_db = Some (order1\<lparr>order_status := Order_CANCELLED\<rparr>)
   \<and> get_order 1 (snd (mark_delivered 1 cancelled_db))
       = Some (order1\<lparr>order_status := Order_DELIVERED\<rparr>)
   \<and> map order_status
        (orders (snd (OrderViewSet_create (order_data1\<lparr>data_status := Some Order_DELIVERED\<rparr>)
                        items1 7 shop_db)))
       = [Order_DELIVERED]"
  by (simp add: get_order_def mark_delivered_def
      OrderViewSet_create_def OrderSerializer_create_def handle_order_status_change_def
      Order_save_def Product_save_def OrderItem_objects_create_def delete_and_respond_def
      Order_delete_def Invoice_objects_create_def Invoice_save_fields_def
      quantize_def decimal_examples Let_def example_defs number_defs)

section \<open>Credit notes\<close>




section \<open>Failure of an item during order creation\<close>

text \<open>
  Claim C5 fails on the code. With products 1 (stock 5) and 2 (stock 3), a request for two
  units of product 1 followed by one unit of the unknown product 99 is refused, and the
  order and its items are deleted, but the stock of product 1 stays decremented to 3.
\<close>

theorem create_failure_keeps_stock_decrement:
  "fst (OrderViewSet_create order_data1 items_unknown 7 shop_db)
     = HTTP_400_BAD_REQUEST (ProductDoesNotExist 99)
   \<and> orders (snd (OrderViewSet_create order_data1 items_unknown 7 shop_db)) = []
   \<and> order_items (snd (OrderViewSet_create order_data1 items_unknown 7 shop_db)) = []
   \<and> map stock_quantity (products shop_db) = [5, 3]
   \<and> map stock_quantity (products (snd (OrderViewSet_create order_data1 items_unknown 7 shop_db)))
     = [3, 3]"
  by (simp add: OrderViewSet_create_def OrderSerializer_create_def handle_order_status_change_def
      Order_save_def Product_save_def OrderItem_objects_create_def delete_and_respond_def
      Order_delete_def Let_def example_defs number_defs)

section \<open>The order total\<close>

text \<open>
  Claim C4, as amended. When \<^verbatim>\<open>OrderViewSet.create\<close> answers 201 (and no item row already
  refers to the key the new order receives), the stored total of the new order equals the
  sum over its items of quantity times unit price. A later save of an order item
  recomputes the total price of that item and writes the item row only; the order rows,
  and so the order total, are not touched by it.
\<close>

theorem created_order_total:
  "(OrderViewSet_create request_data items_data user d = (HTTP_201_CREATED oid, d')
      \<and> filter (\<lambda>it. item_order it = Suc (order_seq d)) (order_items d) = []
      \<longrightarrow> oid = Suc (order_seq d)
          \<and> map_option order_total_amount (get_order oid d') = Some (items_total oid d'))
   \<and> orders (snd (OrderItem_save it d0)) = orders d0
   \<and> (fst (OrderItem_save it d0) = None
      \<longrightarrow> order_items (snd (OrderItem_save it d0))
          = map (\<lambda>x. if item_id x = item_id it
                      then it\<lparr>total_price := of_int (quantity it) * unit_price it\<rparr> else x)
                (order_items d0))"
proof (intro conjI impI)
  assume a: "OrderViewSet_create request_data items_data user d = (HTTP_201_CREATED oid, d')
      \<and> filter (\<lambda>it. item_order it = Suc (order_seq d)) (order_items d) = []"
  then obtain inst d1 where c: "OrderSerializer_create request_data user d = (Inr inst, d1)"
    by (cases "OrderSerializer_create request_data user d")
       (auto simp: OrderViewSet_create_def split: if_splits sum.splits)
  from OrderSerializer_create_ok [OF c]
  have i: "order_id inst = Suc (order_seq d)" "orders d1 = orders d @ [inst]"
    "order_items d1 = order_items d" by simp_all
  from a c obtain tot d2 where p: "process_items inst items_data 0 d1 = (Inr tot, d2)"
    using process_items_201 [of inst items_data 0 d1 oid]
    by (cases "process_items inst items_data 0 d1")
       (auto simp: OrderViewSet_create_def split: if_splits sum.splits option.splits prod.splits)
  from a c p have s: "d' = snd (Order_save (inst\<lparr>order_total_amount := tot\<rparr>) d2)"
    and o: "oid = order_id inst"
    by (auto simp: OrderViewSet_create_def split: if_splits option.splits prod.splits)
  from process_items_ok [OF p]
  have t: "items_total (order_id inst) d2 = items_total (order_id inst) d1 + tot"
    and od: "orders d2 = orders d1" by simp_all
  have z: "items_total (order_id inst) d1 = 0"
    using a i by (simp add: items_total_def)
  have ex: "list_ex (\<lambda>x. order_id x = order_id inst) (orders d2)"
    by (simp add: od i)
  show "oid = Suc (order_seq d)" using o i by simp
  have "items_total oid d' = tot"
    using t z by (simp add: s o items_total_def Order_save_frame)
  moreover have "get_order oid d' = Some (inst\<lparr>order_total_amount := tot\<rparr>)"
    using find_map_const [OF ex, of "inst\<lparr>order_total_amount := tot\<rparr>"]
    by (simp add: s o get_order_def Order_save_frame)
  ultimately show "map_option order_total_amount (get_order oid d') = Some (items_total oid d')"
    by simp
next
  show "orders (snd (OrderItem_save it d0)) = orders d0"
    by (simp add: OrderItem_save_def Let_def)
next
  assume "fst (OrderItem_save it d0) = None"
  then show "order_items (snd (OrderItem_save it d0))
          = map (\<lambda>x. if item_id x = item_id it
                      then it\<lparr>total_price := of_int (quantity it) * unit_price it\<rparr> else x)
                (order_items d0)"
    by (simp add: OrderItem_save_def Let_def split: if_splits)
qed

theorem created_order_total_witness:
  "OrderViewSet_create order_data1 items1 7 shop_db = (HTTP_201_CREATED 1, created_db)
   \<and> filter (\<lambda>it. item_order it = Suc (order_seq shop_db)) (order_items shop_db) = []
   \<and> map_option order_total_amount (get_order 1 created_db) = Some (items_total 1 created_db)
   \<and> items_total 1 created_db = 25"
proof -
  have f: "filter (\<lambda>it. item_order it = Suc (order_seq shop_db)) (order_items shop_db) = []"
    by (simp add: example_defs)
  have t: "items_total (Suc 0) created_db = 25"
    by (simp add: items_total_def created_db_rows)
  show ?thesis
    using created_order_total [of order_data1 items1 7 shop_db 1 created_db] created_db_eval f
    by (simp add: t)
qed

text \<open>
  Claim C4 as stated fails after creation: in the database of the created example order
  (total 25), saving its first item with quantity 3 succeeds, the order total stays 25 and
  the sum over the items becomes 35.
\<close>

theorem item_save_breaks_total_counterexample:
  "OrderViewSet_create order_data1 items1 7 shop_db = (HTTP_201_CREATED 1, created_db)
   \<and> map_option order_total_amount (get_order 1 created_db) = Some 25
   \<and> items_total 1 created_db = 25
   \<and> fst (OrderItem_save
            \<lparr>item_id = 1, item_order = 1, item_product = 1, quantity = 3, unit_price = 10,
             total_price = 20\<rparr> created_db) = None
   \<and> map_option order_total_amount
        (get_order 1 (snd (OrderItem_save
            \<lparr>item_id = 1, item_order = 1, item_product = 1, quantity = 3, unit_price = 10,
             total_price = 20\<rparr> created_db))) = Some 25
   \<and> items_total 1 (snd (OrderItem_save
            \<lparr>item_id = 1, item_order = 1, item_product = 1, quantity = 3, unit_price = 10,
             total_price = 20\<rparr> created_db)) = 35"
  by (simp add: created_db_eval items_total_def get_order_def created_db_rows
      OrderItem_save_def Let_def order1_def)

section \<open>Sequential numbers\<close>




end
